theory Spec2Isabelle
  imports
    Complex_Main
    "HOL-Library.Char_ord"
    "HOL-Library.List_Lexorder"
    "HOL-Library.Log_Nat"
    "HOL-Library.Product_Lexorder"
begin

section \<open>Data model: cells, rows, frames\<close>

text \<open>
  The three scripts (\<^verbatim>\<open>fair.py\<close>, \<^verbatim>\<open>fair2.py\<close>, \<^verbatim>\<open>faircompas.py\<close>) work on a pandas
  DataFrame. A cell is a number, a string, a missing value (\<^verbatim>\<open>None\<close>/\<^verbatim>\<open>NaN\<close>) or a
  Python list. Python compares \<^verbatim>\<open>1 == 1.0\<close> as equal, so ints and floats share one
  constructor. A float64 is kept as the rational it stands for. A quotient of two counts
  and a mean are kept exact, as the quotient the float64 approximates; where the code
  subtracts floats and compares the result with a constant (the verdict of the
  statistical parity check), every float64 rounding is modelled (\<open>float64\<close> below).
\<close>

datatype scalar = Num rat | Str string

datatype val = Null | Sc scalar | Lst "val list"

text \<open>A float64 result that may be \<^verbatim>\<open>NaN\<close>.\<close>

datatype pyfloat = NaN | Fl rat

text \<open>The Python exceptions the modelled functions can raise.\<close>

datatype error = KeyError | TypeError | ValueError | ZeroDivisionError

type_synonym row = "string \<Rightarrow> val"

text \<open>
  A frame has its column labels and its rows in order; a row gives the cell of each
  column. Every access to a column is guarded by membership in \<open>columns\<close>, as
  \<^verbatim>\<open>df[c]\<close> raises \<^verbatim>\<open>KeyError\<close> for an unknown label.
\<close>

record dataframe =
  columns :: "string list"
  rows :: "row list"

fun is_list :: "val \<Rightarrow> bool" where
  "is_list (Lst xs) = True"
| "is_list v = False"

section \<open>Group keys and their order\<close>

text \<open>
  \<^verbatim>\<open>groupby\<close> sorts the group keys (\<^verbatim>\<open>sort=True\<close>); on keys of mixed type pandas
  puts the numbers, by value, before the strings, by code point.
\<close>

fun key_rank :: "val \<Rightarrow> nat \<times> rat \<times> string" where
  "key_rank (Sc (Num q)) = (0, q, [])"
| "key_rank (Sc (Str s)) = (1, 0, s)"
| "key_rank Null = (2, 0, [])"
| "key_rank (Lst xs) = (3, 0, [])"

text \<open>
  The keys of \<^verbatim>\<open>rs.groupby(c)\<close>: the distinct values of column \<open>c\<close> that are not
  missing (\<^verbatim>\<open>dropna=True\<close>), sorted.
\<close>

definition group_keys :: "row list \<Rightarrow> string \<Rightarrow> val list" where
  "group_keys rs c =
     sort_key key_rank (remdups (filter (\<lambda>k. k \<noteq> Null) (map (\<lambda>r. r c) rs)))"

text \<open>
  \<^verbatim>\<open>rs.groupby(c).size()\<close>: the number of rows of each group. A list in the key
  column cannot be hashed, and pandas raises \<^verbatim>\<open>TypeError\<close>.
\<close>

definition groupby_size :: "row list \<Rightarrow> string \<Rightarrow> error + (val \<times> nat) list" where
  "groupby_size rs c =
     (if \<exists>r \<in> set rs. is_list (r c) then Inl TypeError
      else Inr (map (\<lambda>k. (k, length (filter (\<lambda>r. r c = k) rs))) (group_keys rs c)))"

text \<open>
  Division of two Series of counts: pandas aligns them on the sorted union of their
  indexes; a label missing on either side gives \<^verbatim>\<open>NaN\<close>. (A group has at least one
  row, so no divisor here is zero; 0/0 is \<^verbatim>\<open>NaN\<close> in numpy.)
\<close>

definition series_div :: "(val \<times> nat) list \<Rightarrow> (val \<times> nat) list \<Rightarrow> (val \<times> pyfloat) list" where
  "series_div num den =
     map (\<lambda>k. (k, case (map_of num k, map_of den k) of
                    (Some a, Some b) \<Rightarrow> (if b = 0 then NaN else Fl (of_nat a / of_nat b))
                  | _ \<Rightarrow> NaN))
         (sort_key key_rank (remdups (map fst num @ map fst den)))"

text \<open>\<^verbatim>\<open>.fillna(0)\<close> followed by \<^verbatim>\<open>.to_dict()\<close>.\<close>

fun fillna0 :: "pyfloat \<Rightarrow> rat" where
  "fillna0 NaN = 0"
| "fillna0 (Fl q) = q"

definition fillna_to_dict :: "(val \<times> pyfloat) list \<Rightarrow> (val \<times> rat) list" where
  "fillna_to_dict xs = map (\<lambda>(k, x). (k, fillna0 x)) xs"

section \<open>float64\<close>

text \<open>
  IEEE 754 binary64 with rounding to nearest, ties to even, on the rationals: \<open>float64 x\<close>
  is the double nearest to \<open>x\<close>. A double has 53 significant bits, so in the binade
  \<open>2 ^ e \<le> \<bar>x\<bar> < 2 ^ (e + 1)\<close> the doubles are the multiples of \<open>2 ^ (e - 52)\<close>, and
  of \<open>2 ^ - 1074\<close> below the normal range. Overflow to infinity is not modelled: every
  value rounded here lies between -1 and 1.
\<close>

definition pow2 :: "int \<Rightarrow> rat" where
  "pow2 k = (if 0 \<le> k then 2 ^ nat k else 1 / 2 ^ nat (- k))"

definition round_half_even :: "rat \<Rightarrow> int" where
  "round_half_even x =
     (let n = \<lfloor>x\<rfloor>; r = x - of_int n
      in if r < 1 / 2 then n else if 1 / 2 < r then n + 1 else if even n then n else n + 1)"

text \<open>The \<open>e\<close> with \<open>2 ^ e \<le> x < 2 ^ (e + 1)\<close>, for a positive \<open>x\<close>.\<close>

definition binade :: "rat \<Rightarrow> int" where
  "binade x = (if 1 \<le> x then bitlen \<lfloor>x\<rfloor> - 1 else - bitlen (\<lceil>1 / x\<rceil> - 1))"

definition float64 :: "rat \<Rightarrow> rat" where
  "float64 x =
     (if x = 0 then 0
      else let q = max (binade \<bar>x\<bar> - 52) (- 1074)
           in of_int (round_half_even (x / pow2 q)) * pow2 q)"

section \<open>Statistical parity (\<^verbatim>\<open>statistical_parity_check\<close>)\<close>

text \<open>
  Lines 19 to 25, the same in the three scripts:
  \<^verbatim>\<open>
  proportions = (
      df[df[target_column] == target_value]
      .groupby(sensitive_column)
      .size() / df.groupby(sensitive_column).size()
  ).fillna(0)
  disparities = proportions.to_dict()
  \<close>
  \<^verbatim>\<open>target_value\<close> is a scalar read from the prompt. The comparison is elementwise
  and exact: a missing cell or a list equals no scalar.
\<close>

definition proportions :: "dataframe \<Rightarrow> string \<Rightarrow> string \<Rightarrow> scalar \<Rightarrow> error + (val \<times> rat) list" where
  "proportions df sensitive_column target_column target_value =
     (if target_column \<notin> set (columns df) then Inl KeyError
      else if sensitive_column \<notin> set (columns df) then Inl KeyError
      else
        (case groupby_size (filter (\<lambda>r. r target_column = Sc target_value) (rows df))
                sensitive_column of
           Inl e \<Rightarrow> Inl e
         | Inr num \<Rightarrow>
             (case groupby_size (rows df) sensitive_column of
                Inl e \<Rightarrow> Inl e
              | Inr den \<Rightarrow> Inr (fillna_to_dict (series_div num den)))))"

text \<open>Python's \<^verbatim>\<open>max\<close> and \<^verbatim>\<open>min\<close> of a sequence; both raise \<^verbatim>\<open>ValueError\<close> on an empty one.\<close>

fun py_max :: "rat list \<Rightarrow> error + rat" where
  "py_max [] = Inl ValueError"
| "py_max (x # xs) = Inr (fold max xs x)"

fun py_min :: "rat list \<Rightarrow> error + rat" where
  "py_min [] = Inl ValueError"
| "py_min (x # xs) = Inr (fold min xs x)"

text \<open>The literal \<^verbatim>\<open>0.1\<close>: the double nearest to one tenth.\<close>

definition threshold :: rat where
  "threshold = float64 (1 / 10)"

text \<open>
  The rest of the function in \<^verbatim>\<open>fair.py\<close> and \<^verbatim>\<open>fair2.py\<close>:
  \<^verbatim>\<open>
  max_disparity = max(disparities.values()) - min(disparities.values())
  threshold = 0.1
  fairness = max_disparity <= threshold
  return disparities, fairness
  \<close>
  The values of the dictionary are the floats \<open>float64 p\<close> of the quotients \<open>p\<close>
  kept in \<open>disparities\<close>; their difference is rounded again.
\<close>

definition verdict :: "(val \<times> rat) list \<Rightarrow> error + (val \<times> rat) list \<times> bool" where
  "verdict disparities =
     (case py_max (map (\<lambda>(g, p). float64 p) disparities) of
        Inl e \<Rightarrow> Inl e
      | Inr mx \<Rightarrow>
          (case py_min (map (\<lambda>(g, p). float64 p) disparities) of
             Inl e \<Rightarrow> Inl e
           | Inr mn \<Rightarrow> Inr (disparities, float64 (mx - mn) \<le> threshold)))"

definition statistical_parity_check ::
  "dataframe \<Rightarrow> string \<Rightarrow> string \<Rightarrow> scalar \<Rightarrow> error + (val \<times> rat) list \<times> bool" where
  "statistical_parity_check df sensitive_column target_column target_value =
     (case proportions df sensitive_column target_column target_value of
        Inl e \<Rightarrow> Inl e
      | Inr disparities \<Rightarrow> verdict disparities)"

text \<open>
  \<^verbatim>\<open>faircompas.py\<close> returns early on an empty dictionary:
  \<^verbatim>\<open>
  if not disparities:
      print(...)
      return {}, True
  \<close>
\<close>

definition statistical_parity_check_compas ::
  "dataframe \<Rightarrow> string \<Rightarrow> string \<Rightarrow> scalar \<Rightarrow> error + (val \<times> rat) list \<times> bool" where
  "statistical_parity_check_compas df sensitive_column target_column target_value =
     (case proportions df sensitive_column target_column target_value of
        Inl e \<Rightarrow> Inl e
      | Inr disparities \<Rightarrow>
          (if disparities = [] then Inr ([], True) else verdict disparities))"

section \<open>Target normalisation (\<^verbatim>\<open>preprocess_target_column\<close>)\<close>

text \<open>
  \<^verbatim>\<open>fair.py\<close> lines 32 to 39 and \<^verbatim>\<open>fair2.py\<close> lines 53 to 60:
  \<^verbatim>\<open>
  if df[target_column].apply(lambda x: isinstance(x, list)).any():
      df[target_column] = df[target_column].apply(
          lambda x: x[0] if isinstance(x, list) and len(x) > 0 else None)
  return df
  \<close>
  The second lambda, applied to every cell of the column once some cell is a list.
\<close>

fun first_or_none :: "val \<Rightarrow> val" where
  "first_or_none (Lst (x # xs)) = x"
| "first_or_none v = Null"

definition preprocess_target_column :: "dataframe \<Rightarrow> string \<Rightarrow> error + dataframe" where
  "preprocess_target_column df target_column =
     (if target_column \<notin> set (columns df) then Inl KeyError
      else if \<exists>r \<in> set (rows df). is_list (r target_column)
      then Inr (df\<lparr>rows := map (\<lambda>r. r(target_column := first_or_none (r target_column)))
                               (rows df)\<rparr>)
      else Inr df)"

section \<open>The orchestrator (\<^verbatim>\<open>analyze_fairness\<close>)\<close>

text \<open>
  \<^verbatim>\<open>fair.py\<close> lines 48 to 65. The function returns nothing: its result is what it
  prints, one \<open>printed\<close> per \<^verbatim>\<open>print\<close>, together with the exception that ended
  the loop, if one did.
  \<^verbatim>\<open>
  for sensitive_column in sensitive_columns:
      if sensitive_column in df.columns:
          print(f"\nAnalisi per la colonna sensibile: {sensitive_column}")
          disparities, fairness = statistical_parity_check(df, sensitive_column, ...)
          print("Disparita per gruppo:", disparities)
          print("Il dataset e fair?", fairness)
      else:
          print(f"Colonna sensibile '{sensitive_column}' non trovata nel dataset.")
  \<close>
\<close>

datatype printed =
    Analysis_header string
  | Disparities "(val \<times> rat) list"
  | Is_fair bool
  | Column_not_found string

fun analyze_fairness ::
  "dataframe \<Rightarrow> string list \<Rightarrow> string \<Rightarrow> scalar \<Rightarrow> printed list \<times> error option" where
  "analyze_fairness df [] target_column target_value = ([], None)"
| "analyze_fairness df (sensitive_column # sensitive_columns) target_column target_value =
     (if sensitive_column \<in> set (columns df) then
        (case statistical_parity_check df sensitive_column target_column target_value of
           Inl e \<Rightarrow> ([Analysis_header sensitive_column], Some e)
         | Inr (disparities, fairness) \<Rightarrow>
             (case analyze_fairness df sensitive_columns target_column target_value of
                (out, r) \<Rightarrow>
                  (Analysis_header sensitive_column # Disparities disparities
                     # Is_fair fairness # out, r)))
      else
        (case analyze_fairness df sensitive_columns target_column target_value of
           (out, r) \<Rightarrow> (Column_not_found sensitive_column # out, r)))"

section \<open>Conditional parity (\<^verbatim>\<open>conditional_statistical_parity\<close>)\<close>

text \<open>
  \<^verbatim>\<open>fair2.py\<close> lines 32 to 39:
  \<^verbatim>\<open>
  grouped = df.groupby([sensitive_column, control_column])[target_column].mean().unstack()
  \<close>
  \<^verbatim>\<open>mean\<close> skips missing values and is \<^verbatim>\<open>NaN\<close> when nothing is left. The two
  \<^verbatim>\<open>print\<close> calls of the function are left out; \<^verbatim>\<open>target_value\<close> is not used.
\<close>

fun numbers :: "val list \<Rightarrow> rat list" where
  "numbers [] = []"
| "numbers (Sc (Num q) # vs) = q # numbers vs"
| "numbers (v # vs) = numbers vs"

definition mean :: "val list \<Rightarrow> pyfloat" where
  "mean vs = (if numbers vs = [] then NaN
              else Fl (sum_list (numbers vs) / of_nat (length (numbers vs))))"





text \<open>
  \<^verbatim>\<open>unstack\<close>: a frame with a row for each first key of the index and a column for
  each second key; the cell of a pair that is not in the index is \<^verbatim>\<open>NaN\<close>. The order
  of the rows and columns is not modelled.
\<close>

record matrix =
  row_labels :: "val set"
  column_labels :: "val set"
  cell :: "val \<Rightarrow> val \<Rightarrow> pyfloat"




section \<open>Performance parity (\<^verbatim>\<open>evaluate_model_performance\<close>)\<close>

text \<open>\<^verbatim>\<open>Series.unique()\<close>: the distinct values in order of first appearance, a missing one included.\<close>

fun unique :: "val list \<Rightarrow> val list" where
  "unique [] = []"
| "unique (x # xs) = x # unique (filter (\<lambda>y. y \<noteq> x) xs)"

text \<open>Python's \<^verbatim>\<open>/\<close> on two ints (\<^verbatim>\<open>shape[0]\<close> is an int).\<close>

definition py_truediv :: "nat \<Rightarrow> nat \<Rightarrow> error + rat" where
  "py_truediv a b = (if b = 0 then Inl ZeroDivisionError else Inr (of_nat a / of_nat b))"

record metrics =
  TPR :: rat
  FPR :: rat

text \<open>
  \<^verbatim>\<open>fair2.py\<close> lines 45 to 51:
  \<^verbatim>\<open>
  metrics = {}
  for group in df[sensitive_column].unique():
      group_data = df[df[sensitive_column] == group]
      tpr = group_data[(group_data[target_column] == 1) & (group_data[prediction_column] == 1)].shape[0]
            / group_data[group_data[target_column] == 1].shape[0]
      fpr = group_data[(group_data[target_column] == 0) & (group_data[prediction_column] == 1)].shape[0]
            / group_data[group_data[target_column] == 0].shape[0]
      metrics[group] = {"TPR": tpr, "FPR": fpr}
  return metrics
  \<close>
  A missing value equals nothing, itself included, so the group of a missing key is
  empty. The target and prediction columns are first looked up inside the loop.
\<close>

definition group_data :: "dataframe \<Rightarrow> string \<Rightarrow> val \<Rightarrow> row list" where
  "group_data df sensitive_column grp =
     filter (\<lambda>r. grp \<noteq> Null \<and> r sensitive_column = grp) (rows df)"

fun performance_loop ::
  "dataframe \<Rightarrow> string \<Rightarrow> string \<Rightarrow> string \<Rightarrow> val list \<Rightarrow> error + (val \<times> metrics) list" where
  "performance_loop df sensitive_column target_column prediction_column [] = Inr []"
| "performance_loop df sensitive_column target_column prediction_column (grp # grps) =
     (if target_column \<notin> set (columns df) \<or> prediction_column \<notin> set (columns df)
      then Inl KeyError
      else
        (case py_truediv
                (length (filter (\<lambda>r. r target_column = Sc (Num 1) \<and> r prediction_column = Sc (Num 1))
                           (group_data df sensitive_column grp)))
                (length (filter (\<lambda>r. r target_column = Sc (Num 1))
                           (group_data df sensitive_column grp))) of
           Inl e \<Rightarrow> Inl e
         | Inr tpr \<Rightarrow>
             (case py_truediv
                     (length (filter (\<lambda>r. r target_column = Sc (Num 0) \<and> r prediction_column = Sc (Num 1))
                                (group_data df sensitive_column grp)))
                     (length (filter (\<lambda>r. r target_column = Sc (Num 0))
                                (group_data df sensitive_column grp))) of
                Inl e \<Rightarrow> Inl e
              | Inr fpr \<Rightarrow>
                  (case performance_loop df sensitive_column target_column prediction_column grps of
                     Inl e \<Rightarrow> Inl e
                   | Inr metrics \<Rightarrow> Inr ((grp, \<lparr>TPR = tpr, FPR = fpr\<rparr>) # metrics)))))"

definition evaluate_model_performance ::
  "dataframe \<Rightarrow> string \<Rightarrow> string \<Rightarrow> string \<Rightarrow> error + (val \<times> metrics) list" where
  "evaluate_model_performance df sensitive_column target_column prediction_column =
     (if sensitive_column \<notin> set (columns df) then Inl KeyError
      else if \<exists>r \<in> set (rows df). is_list (r sensitive_column) then Inl TypeError
      else performance_loop df sensitive_column target_column prediction_column
             (unique (map (\<lambda>r. r sensitive_column) (rows df))))"

section \<open>An example frame\<close>

text \<open>
  Five rows over the columns \<^verbatim>\<open>group\<close>, \<^verbatim>\<open>target\<close> and \<^verbatim>\<open>pred\<close>; one row has no group.
\<close>

definition row3 :: "val \<Rightarrow> val \<Rightarrow> val \<Rightarrow> row" where
  "row3 g t p = (\<lambda>c. if c = ''group'' then g else if c = ''target'' then t
                      else if c = ''pred'' then p else Null)"

definition example_frame :: dataframe where
  "example_frame =
     \<lparr>columns = [''group'', ''target'', ''pred''],
      rows = [row3 (Sc (Str ''A'')) (Sc (Num 1)) (Sc (Num 1)),
              row3 (Sc (Str ''B'')) (Sc (Num 0)) (Sc (Num 1)),
              row3 Null (Sc (Num 1)) (Sc (Num 1)),
              row3 (Sc (Str ''A'')) (Sc (Num 0)) (Sc (Num 0)),
              row3 (Sc (Str ''B'')) (Sc (Num 0)) (Sc (Num 0))]\<rparr>"

text \<open>
  A frame with the proportions 2/5 and 3/10, a frame without any group, the cells of
  Scenario D in the target column, and a frame with labels other than 0 and 1.
\<close>

definition threshold_frame :: dataframe where
  "threshold_frame =
     \<lparr>columns = [''group'', ''target'', ''pred''],
      rows = replicate 2 (row3 (Sc (Str ''A'')) (Sc (Num 1)) Null)
           @ replicate 3 (row3 (Sc (Str ''A'')) (Sc (Num 0)) Null)
           @ replicate 3 (row3 (Sc (Str ''B'')) (Sc (Num 1)) Null)
           @ replicate 7 (row3 (Sc (Str ''B'')) (Sc (Num 0)) Null)\<rparr>"

definition no_group_frame :: dataframe where
  "no_group_frame =
     \<lparr>columns = [''group'', ''target'', ''pred''],
      rows = [row3 Null (Sc (Num 1)) (Sc (Num 1)), row3 Null (Sc (Num 0)) (Sc (Num 1))]\<rparr>"

definition scenario_D :: dataframe where
  "scenario_D =
     \<lparr>columns = [''group'', ''target'', ''pred''],
      rows = [row3 (Sc (Str ''A'')) (Lst [Sc (Num 1)]) Null,
              row3 (Sc (Str ''A'')) (Lst []) Null,
              row3 (Sc (Str ''B'')) (Sc (Num 1)) Null]\<rparr>"


section \<open>Properties of the statistical parity evaluator\<close>


lemma set_group_keys: "set (group_keys rs c) = (\<lambda>r. r c) ` set rs - {Null}"
  by (auto simp: group_keys_def)

lemma map_of_tabulate:
  "map_of (map (\<lambda>k. (k, f k)) ks) k = (if k \<in> set ks then Some (f k) else None)"
  by (induction ks) auto

lemma groupby_size_ok:
  "\<forall>r \<in> set rs. \<not> is_list (r c) \<Longrightarrow>
   groupby_size rs c = Inr (map (\<lambda>k. (k, length (filter (\<lambda>r. r c = k) rs))) (group_keys rs c))"
  by (simp add: groupby_size_def)

lemma fillna_series_div:
  "fillna_to_dict (series_div num den) =
   map (\<lambda>k. (k, fillna0 (case (map_of num k, map_of den k) of
                    (Some a, Some b) \<Rightarrow> (if b = 0 then NaN else Fl (of_nat a / of_nat b))
                  | _ \<Rightarrow> NaN)))
       (sort_key key_rank (remdups (map fst num @ map fst den)))"
  by (simp add: fillna_to_dict_def series_div_def)

lemma proportions_ok:
  assumes t: "t \<in> set (columns df)" and s: "s \<in> set (columns df)"
    and nl: "\<forall>r \<in> set (rows df). \<not> is_list (r s)"
  shows "proportions df s t v =
    Inr (map (\<lambda>k. (k, of_nat (length (filter (\<lambda>r. r s = k \<and> r t = Sc v) (rows df))) /
          of_nat (length (filter (\<lambda>r. r s = k) (rows df)))))
      (sort_key key_rank (remdups (group_keys (filter (\<lambda>r. r t = Sc v) (rows df)) s @ group_keys (rows df) s))))"
proof -
  let ?sel = "filter (\<lambda>r. r t = Sc v) (rows df)"
  let ?num = "map (\<lambda>k. (k, length (filter (\<lambda>r. r s = k) ?sel))) (group_keys ?sel s)"
  let ?den = "map (\<lambda>k. (k, length (filter (\<lambda>r. r s = k) (rows df)))) (group_keys (rows df) s)"
  let ?keys = "sort_key key_rank (remdups (group_keys ?sel s @ group_keys (rows df) s))"
  have nl': "\<forall>r \<in> set ?sel. \<not> is_list (r s)" using nl by simp
  have p: "proportions df s t v = Inr (fillna_to_dict (series_div ?num ?den))"
    using t s by (simp add: proportions_def groupby_size_ok [OF nl] groupby_size_ok [OF nl'])
  have sub: "set (group_keys ?sel s) \<subseteq> set (group_keys (rows df) s)"
    by (auto simp: set_group_keys)
  have cell: "fillna0 (case (map_of ?num k, map_of ?den k) of
                    (Some a, Some b) \<Rightarrow> (if b = 0 then NaN else Fl (of_nat a / of_nat b))
                  | _ \<Rightarrow> NaN) = of_nat (length (filter (\<lambda>r. r s = k \<and> r t = Sc v) (rows df))) /
          of_nat (length (filter (\<lambda>r. r s = k) (rows df)))" (is "?l = ?r")
    if k: "k \<in> set ?keys" for k
  proof -
    from k sub have kd: "k \<in> set (group_keys (rows df) s)" by auto
    then obtain r0 where r0: "r0 \<in> set (rows df)" "r0 s = k" by (auto simp: set_group_keys)
    then have pos: "length (filter (\<lambda>r. r s = k) (rows df)) \<noteq> 0"
      by (auto simp: filter_empty_conv)
    show ?thesis
    proof (cases "k \<in> set (group_keys ?sel s)")
      case True
      then show ?thesis using kd pos by (simp add: map_of_tabulate conj_commute)
    next
      case False
      have "\<not> (r s = k \<and> r t = Sc v)" if "r \<in> set (rows df)" for r
      proof
        assume a: "r s = k \<and> r t = Sc v"
        with that have "k \<in> (\<lambda>r. r s) ` set ?sel" by force
        moreover from kd have "k \<noteq> Null" by (simp add: set_group_keys)
        ultimately show False using False by (simp add: set_group_keys)
      qed
      then have "filter (\<lambda>r. r s = k \<and> r t = Sc v) (rows df) = []"
        by (simp add: filter_empty_conv)
      then show ?thesis using False kd by (simp add: map_of_tabulate)
    qed
  qed
  have k1: "map fst ?num = group_keys ?sel s" by (simp add: comp_def)
  have k2: "map fst ?den = group_keys (rows df) s" by (simp add: comp_def)
  have "fillna_to_dict (series_div ?num ?den) = map (\<lambda>k. (k, of_nat (length (filter (\<lambda>r. r s = k \<and> r t = Sc v) (rows df))) /
          of_nat (length (filter (\<lambda>r. r s = k) (rows df))))) ?keys"
    unfolding fillna_series_div k1 k2
    by (rule map_cong [OF refl]) (simp only: cell)
  with p show ?thesis by simp
qed

lemma union_keys_set:
  "set (sort_key key_rank (remdups (group_keys (filter P rs) s @ group_keys rs s))) =
   (\<lambda>r. r s) ` set rs - {Null}"
  by (auto simp: set_group_keys)

lemma proportions_keys:
  assumes "t \<in> set (columns df)" "s \<in> set (columns df)" "\<forall>r \<in> set (rows df). \<not> is_list (r s)"
    and "proportions df s t v = Inr d"
  shows "set (map fst d) = (\<lambda>r. r s) ` set (rows df) - {Null}" and "distinct (map fst d)"
    and "k \<in> set (map fst d) \<Longrightarrow> map_of d k = Some (of_nat (length (filter (\<lambda>r. r s = k \<and> r t = Sc v) (rows df))) /
          of_nat (length (filter (\<lambda>r. r s = k) (rows df))))"
proof -
  let ?keys = "sort_key key_rank (remdups (group_keys (filter (\<lambda>r. r t = Sc v) (rows df)) s @ group_keys (rows df) s))"
  let ?f = "\<lambda>k. of_nat (length (filter (\<lambda>r. r s = k \<and> r t = Sc v) (rows df))) /
          (of_nat (length (filter (\<lambda>r. r s = k) (rows df))) :: rat)"
  from assms proportions_ok [of t df s v] have d: "d = map (\<lambda>k. (k, ?f k)) ?keys" by simp
  have fst: "map fst d = ?keys" unfolding d by (simp add: comp_def)
  show "set (map fst d) = (\<lambda>r. r s) ` set (rows df) - {Null}"
    unfolding fst by (rule union_keys_set)
  show "distinct (map fst d)" unfolding fst by simp
  show "map_of d k = Some (?f k)" if "k \<in> set (map fst d)"
    using that unfolding fst unfolding d by (simp only: map_of_tabulate if_True)
qed

lemma proportions_Inr_D:
  "proportions df s t v = Inr d \<Longrightarrow>
   t \<in> set (columns df) \<and> s \<in> set (columns df) \<and> (\<forall>r \<in> set (rows df). \<not> is_list (r s))"
  by (auto simp: proportions_def groupby_size_def split: if_splits sum.splits)

lemma verdict_Inr:
  assumes "d \<noteq> []"
  shows "verdict d =
    Inr (d, float64 (Max ((\<lambda>(g, p). float64 p) ` set d) - Min ((\<lambda>(g, p). float64 p) ` set d))
              \<le> float64 (1 / 10))"
proof -
  from assms obtain x xs where m: "map (\<lambda>(g, p). float64 p) d = x # xs" by (cases d) auto
  have "Max ((\<lambda>(g, p). float64 p) ` set d) = fold max xs x"
    using Max.set_eq_fold [of x xs] m by (metis list.set_map)
  moreover have "Min ((\<lambda>(g, p). float64 p) ` set d) = fold min xs x"
    using Min.set_eq_fold [of x xs] m by (metis list.set_map)
  ultimately show ?thesis by (simp add: verdict_def m threshold_def)
qed

lemma verdict_Nil: "verdict [] = Inl ValueError"
  by (simp add: verdict_def)

lemma check_Inr_D:
  assumes "check = statistical_parity_check \<or> check = statistical_parity_check_compas"
    and "check df s t v = Inr (d, fair)"
  shows "proportions df s t v = Inr d"
  using assms
  by (auto simp: statistical_parity_check_def statistical_parity_check_compas_def verdict_def
      split: sum.splits if_splits)

lemma check_nonempty:
  assumes "check = statistical_parity_check \<or> check = statistical_parity_check_compas"
    and "proportions df s t v = Inr d" and "d \<noteq> []"
  shows "check df s t v =
    Inr (d, float64 (Max ((\<lambda>(g, p). float64 p) ` set d) - Min ((\<lambda>(g, p). float64 p) ` set d))
              \<le> float64 (1 / 10))"
  using assms
  by (auto simp: statistical_parity_check_def statistical_parity_check_compas_def verdict_Inr)

lemma float64_tenth: "float64 (1 / 10) = 3602879701896397 / 36028797018963968"
  by code_simp

lemma ratio_bounds:
  "0 \<le> (of_nat (length (filter (\<lambda>r. P r \<and> Q r) rs)) :: rat) / of_nat (length (filter P rs)) \<and>
   (of_nat (length (filter (\<lambda>r. P r \<and> Q r) rs)) :: rat) / of_nat (length (filter P rs)) \<le> 1"
proof -
  have "filter (\<lambda>r. P r \<and> Q r) rs = filter Q (filter P rs)" by (simp add: conj_commute)
  then have le: "length (filter (\<lambda>r. P r \<and> Q r) rs) \<le> length (filter P rs)"
    by (metis length_filter_le)
  show ?thesis
  proof (cases "length (filter P rs) = 0")
    case True
    then show ?thesis by simp
  next
    case False
    then have "(0::rat) < of_nat (length (filter P rs))" by simp
    then show ?thesis using le by (simp add: divide_le_eq_1_pos)
  qed
qed

lemma group_keys_dropna:
  "group_keys (filter (\<lambda>r. r s \<noteq> Null) rs) s = group_keys rs s"
  by (simp add: group_keys_def filter_map comp_def)

lemma group_keys_dropna_sel:
  "group_keys (filter P (filter (\<lambda>r. r s \<noteq> Null) rs)) s = group_keys (filter P rs) s"
proof -
  have "filter P (filter (\<lambda>r. r s \<noteq> Null) rs) = filter (\<lambda>r. r s \<noteq> Null) (filter P rs)"
    by (simp add: conj_commute)
  then show ?thesis by (simp only: group_keys_dropna)
qed

lemma proportions_dropna:
  assumes t: "t \<in> set (columns df)" and s: "s \<in> set (columns df)"
    and nl: "\<forall>r \<in> set (rows df). \<not> is_list (r s)"
  shows "proportions (df\<lparr>rows := filter (\<lambda>r. r s \<noteq> Null) (rows df)\<rparr>) s t v = proportions df s t v"
proof -
  let ?df' = "df\<lparr>rows := filter (\<lambda>r. r s \<noteq> Null) (rows df)\<rparr>"
  let ?keys = "sort_key key_rank (remdups (group_keys (filter (\<lambda>r. r t = Sc v) (rows df)) s @ group_keys (rows df) s))"
  have t': "t \<in> set (columns ?df')" and s': "s \<in> set (columns ?df')"
    and nl': "\<forall>r \<in> set (rows ?df'). \<not> is_list (r s)"
    using t s nl by simp_all
  have cnt: "filter Q (filter (\<lambda>r. r s \<noteq> Null) (rows df)) = filter Q (rows df)"
    if "\<forall>r. Q r \<longrightarrow> r s \<noteq> Null" for Q
    unfolding filter_filter by (rule filter_cong) (use that in auto)
  have eq: "(k, of_nat (length (filter (\<lambda>r. r s = k \<and> r t = Sc v) (filter (\<lambda>r. r s \<noteq> Null) (rows df)))) /
          (of_nat (length (filter (\<lambda>r. r s = k) (filter (\<lambda>r. r s \<noteq> Null) (rows df)))) :: rat)) =
     (k, of_nat (length (filter (\<lambda>r. r s = k \<and> r t = Sc v) (rows df))) /
          of_nat (length (filter (\<lambda>r. r s = k) (rows df))))" if "k \<in> set ?keys" for k
  proof -
    from that have k: "k \<noteq> Null" by (auto simp: set_group_keys)
    have a1: "filter (\<lambda>r. r s = k \<and> r t = Sc v) (filter (\<lambda>r. r s \<noteq> Null) (rows df)) =
              filter (\<lambda>r. r s = k \<and> r t = Sc v) (rows df)"
      by (rule cnt) (use k in auto)
    have a2: "filter (\<lambda>r. r s = k) (filter (\<lambda>r. r s \<noteq> Null) (rows df)) =
              filter (\<lambda>r. r s = k) (rows df)"
      by (rule cnt) (use k in auto)
    show ?thesis by (simp only: a1 a2)
  qed
  have r': "rows ?df' = filter (\<lambda>r. r s \<noteq> Null) (rows df)" by simp
  show ?thesis
    unfolding proportions_ok [OF t' s' nl'] proportions_ok [OF t s nl] r'
      group_keys_dropna group_keys_dropna_sel
    by (rule arg_cong [where f = Inr], rule map_cong [OF refl], erule eq)
qed

text \<open>
  Claim C1. On a frame that has both columns, the evaluator returns, for every value
  \<open>g\<close> that occurs in the sensitive column (a group key, so not a missing value),
  the number of rows with sensitive value \<open>g\<close> and target equal to the target value,
  divided by the number of all rows with sensitive value \<open>g\<close>; a group with no such
  row is in the dictionary with proportion 0. (The sensitive column must hold no list,
  which pandas cannot hash.)
\<close>

theorem parity_proportion_is_group_ratio:
  assumes "check = statistical_parity_check \<or> check = statistical_parity_check_compas"
    and "s \<in> set (columns df)" and "t \<in> set (columns df)"
    and "\<forall>r \<in> set (rows df). \<not> is_list (r s)"
    and "r0 \<in> set (rows df)" and "r0 s = g" and "g \<noteq> Null"
  shows "\<exists>d fair. check df s t v = Inr (d, fair) \<and>
           map_of d g = Some (of_nat (length (filter (\<lambda>r. r s = g \<and> r t = Sc v) (rows df))) /
                              of_nat (length (filter (\<lambda>r. r s = g) (rows df)))) \<and>
           (filter (\<lambda>r. r s = g \<and> r t = Sc v) (rows df) = [] \<longrightarrow> map_of d g = Some 0)"
proof -
  from proportions_ok [OF assms(3,2,4)] obtain d where p: "proportions df s t v = Inr d"
    by blast
  note k = proportions_keys [OF assms(3,2,4) p]
  from assms(5-7) have g: "g \<in> set (map fst d)" unfolding k(1) by blast
  then have ne: "d \<noteq> []" by auto
  from check_nonempty [OF assms(1) p ne] k(3) [OF g] show ?thesis by auto
qed


theorem parity_proportion_is_group_ratio_witness:
  "\<exists>d fair. statistical_parity_check example_frame ''group'' ''target'' (Num 1) = Inr (d, fair) \<and>
      map_of d (Sc (Str ''A'')) = Some (1 / 2) \<and> map_of d (Sc (Str ''B'')) = Some 0"
proof -
  let ?rA = "row3 (Sc (Str ''A'')) (Sc (Num 1)) (Sc (Num 1))"
  let ?rB = "row3 (Sc (Str ''B'')) (Sc (Num 0)) (Sc (Num 1))"
  have c: "statistical_parity_check = statistical_parity_check \<or>
           statistical_parity_check = statistical_parity_check_compas" by simp
  have s: "''group'' \<in> set (columns example_frame)"
    and t: "''target'' \<in> set (columns example_frame)"
    by (simp_all add: example_frame_def)
  have nl: "\<forall>r \<in> set (rows example_frame). \<not> is_list (r ''group'')"
    by (simp add: example_frame_def row3_def)
  have inA: "?rA \<in> set (rows example_frame)" and inB: "?rB \<in> set (rows example_frame)"
    by (simp_all add: example_frame_def)
  have gA: "?rA ''group'' = Sc (Str ''A'')" and gB: "?rB ''group'' = Sc (Str ''B'')"
    by (simp_all add: row3_def)
  from parity_proportion_is_group_ratio [OF c s t nl inA gA, of "Num 1"]
  obtain d fair where
    A: "statistical_parity_check example_frame ''group'' ''target'' (Num 1) = Inr (d, fair)"
       "map_of d (Sc (Str ''A'')) = Some (1 / 2)"
    by (auto simp: example_frame_def row3_def)
  from parity_proportion_is_group_ratio [OF c s t nl inB gB, of "Num 1"] A(1)
  have "map_of d (Sc (Str ''B'')) = Some 0"
    by (auto simp: example_frame_def row3_def)
  with A show ?thesis by blast
qed

lemma round_half_even_error: "\<bar>of_int (round_half_even y) - y\<bar> \<le> 1 / 2"
proof -
  have a: "of_int \<lfloor>y\<rfloor> \<le> y" and b: "y < of_int \<lfloor>y\<rfloor> + 1" by linarith+
  show ?thesis
    unfolding round_half_even_def Let_def using a b by (auto split: if_splits) 
qed

lemma pow2_pos: "0 < pow2 k"
  by (simp add: pow2_def)

lemma pow2_le: "q \<le> - 52 \<Longrightarrow> pow2 q \<le> 1 / 2 ^ 52"
proof -
  assume q: "q \<le> - 52"
  then have "(2::rat) ^ 52 \<le> 2 ^ nat (- q)" by (intro power_increasing) auto
  with q show ?thesis by (simp add: pow2_def frac_le)
qed

lemma binade_le_0:
  assumes "0 < x" and "x < 2"
  shows "binade x \<le> 0"
proof (cases "1 \<le> x")
  case True
  with assms have "\<lfloor>x\<rfloor> = 1" by linarith
  then show ?thesis using True by (simp add: binade_def compute_bitlen)
next
  case False
  then show ?thesis using bitlen_nonneg [of "\<lceil>1 / x\<rceil> - 1"] by (simp add: binade_def)
qed

lemma float64_error:
  assumes "\<bar>x\<bar> < 2"
  shows "\<bar>float64 x - x\<bar> \<le> 1 / 2 ^ 53"
proof (cases "x = 0")
  case True
  then show ?thesis by (simp add: float64_def)
next
  case False
  define q where "q = max (binade \<bar>x\<bar> - 52) (- 1074)"
  define P where "P = pow2 q"
  from False assms have "binade \<bar>x\<bar> \<le> 0" by (intro binade_le_0) auto
  then have "q \<le> - 52" by (simp add: q_def)
  then have P52: "P \<le> 1 / 2 ^ 52" unfolding P_def by (rule pow2_le)
  have Ppos: "0 < P" unfolding P_def by (rule pow2_pos)
  have f: "float64 x = of_int (round_half_even (x / P)) * P"
    using False by (simp add: float64_def q_def P_def Let_def)
  have "float64 x - x = (of_int (round_half_even (x / P)) - x / P) * P"
    using Ppos by (simp add: f field_simps)
  then have "\<bar>float64 x - x\<bar> = \<bar>of_int (round_half_even (x / P)) - x / P\<bar> * P"
    using Ppos by (simp add: abs_mult)
  also have "\<dots> \<le> (1 / 2) * P"
    using round_half_even_error [of "x / P"] Ppos by (intro mult_right_mono) auto
  also have "\<dots> \<le> (1 / 2) * (1 / 2 ^ 52)" using P52 by simp
  finally show ?thesis by simp
qed

lemma Max_image_close:
  fixes f g :: "'a \<Rightarrow> rat"
  assumes "finite S" and "S \<noteq> {}" and "\<forall>x \<in> S. \<bar>f x - g x\<bar> \<le> e"
  shows "\<bar>Max (f ` S) - Max (g ` S)\<bar> \<le> e"
proof -
  from assms obtain a where a: "a \<in> S" "Max (f ` S) = f a"
    by (metis (no_types, lifting) Max_in finite_imageI image_iff image_is_empty)
  from assms obtain b where b: "b \<in> S" "Max (g ` S) = g b"
    by (metis (no_types, lifting) Max_in finite_imageI image_iff image_is_empty)
  have "f b \<le> f a" using a b assms(1) by (metis Max_ge finite_imageI imageI)
  moreover have "g a \<le> g b" using a b assms(1) by (metis Max_ge finite_imageI imageI)
  moreover have "\<bar>f a - g a\<bar> \<le> e" "\<bar>f b - g b\<bar> \<le> e" using assms(3) a b by auto
  ultimately show ?thesis unfolding a b by linarith
qed

lemma Min_image_close:
  fixes f g :: "'a \<Rightarrow> rat"
  assumes "finite S" and "S \<noteq> {}" and "\<forall>x \<in> S. \<bar>f x - g x\<bar> \<le> e"
  shows "\<bar>Min (f ` S) - Min (g ` S)\<bar> \<le> e"
proof -
  from assms obtain a where a: "a \<in> S" "Min (f ` S) = f a"
    by (metis (no_types, lifting) Min_in finite_imageI image_iff image_is_empty)
  from assms obtain b where b: "b \<in> S" "Min (g ` S) = g b"
    by (metis (no_types, lifting) Min_in finite_imageI image_iff image_is_empty)
  have "f a \<le> f b" using a b assms(1) by (metis Min_le finite_imageI imageI)
  moreover have "g b \<le> g a" using a b assms(1) by (metis Min_le finite_imageI imageI)
  moreover have "\<bar>f a - g a\<bar> \<le> e" "\<bar>f b - g b\<bar> \<le> e" using assms(3) a b by auto
  ultimately show ?thesis unfolding a b by linarith
qed

lemma float64_spread_close:
  fixes d :: "(val \<times> rat) list"
  assumes "d \<noteq> []" and "\<forall>(g, p) \<in> set d. 0 \<le> p \<and> p \<le> (1::rat)"
  shows "\<bar>float64 (Max ((\<lambda>(g, p). float64 p) ` set d) - Min ((\<lambda>(g, p). float64 p) ` set d))
          - (Max (snd ` set d) - Min (snd ` set d))\<bar> \<le> 3 / 2 ^ 53"
proof -
  define A where "A = Max ((\<lambda>(g :: val, p). float64 p) ` set d)"
  define B where "B = Min ((\<lambda>(g :: val, p). float64 p) ` set d)"
  define a where "a = Max (snd ` set d)"
  define b where "b = Min (snd ` set d)"
  have fin: "finite (set d)" "set d \<noteq> {}" using assms(1) by auto
  have close: "\<forall>x \<in> set d. \<bar>(\<lambda>(g :: val, p). float64 p) x - snd x\<bar> \<le> 1 / 2 ^ 53"
  proof
    fix x assume x: "x \<in> set d"
    obtain g p where gp: "x = (g, p)" by (cases x)
    with x assms(2) have "\<bar>p\<bar> < 2" by auto
    from float64_error [OF this] show "\<bar>(\<lambda>(g :: val, p). float64 p) x - snd x\<bar> \<le> 1 / 2 ^ 53"
      unfolding gp by (simp only: prod.case snd_conv)
  qed
  have mx: "\<bar>A - a\<bar> \<le> 1 / 2 ^ 53" unfolding A_def a_def by (rule Max_image_close [OF fin close])
  have mn: "\<bar>B - b\<bar> \<le> 1 / 2 ^ 53" unfolding B_def b_def by (rule Min_image_close [OF fin close])
  have "a \<in> snd ` set d" "b \<in> snd ` set d"
    unfolding a_def b_def using fin by auto
  with assms(2) have r: "0 \<le> a" "a \<le> 1" "0 \<le> b" "b \<le> 1" by auto
  have small: "(1::rat) / 2 ^ 53 \<le> 1 / 4" by simp
  have "\<bar>A - B\<bar> < 2" using mx mn r small by linarith
  from float64_error [OF this] have "\<bar>float64 (A - B) - (A - B)\<bar> \<le> 1 / 2 ^ 53" .
  with mx mn have "\<bar>float64 (A - B) - (a - b)\<bar> \<le> 3 / 2 ^ 53" by linarith
  then show ?thesis unfolding A_def B_def a_def b_def .
qed

lemma threshold_bounds:
  "1 / 10 \<le> float64 (1 / 10)" "float64 (1 / 10) < 1 / 10 + 1 / 2 ^ 53"
  by (simp_all add: float64_tenth)

lemma spread_verdict_tolerance:
  fixes d :: "(val \<times> rat) list"
  assumes "d \<noteq> []" and "\<forall>(g, p) \<in> set d. 0 \<le> p \<and> p \<le> (1::rat)"
  shows "(Max (snd ` set d) - Min (snd ` set d) \<le> 1 / 10 - 1 / 2 ^ 50 \<longrightarrow>
            float64 (Max ((\<lambda>(g, p). float64 p) ` set d) - Min ((\<lambda>(g, p). float64 p) ` set d))
              \<le> float64 (1 / 10)) \<and>
         (1 / 10 + 1 / 2 ^ 50 \<le> Max (snd ` set d) - Min (snd ` set d) \<longrightarrow>
            \<not> float64 (Max ((\<lambda>(g, p). float64 p) ` set d) - Min ((\<lambda>(g, p). float64 p) ` set d))
              \<le> float64 (1 / 10))"
proof -
  define X where "X = float64 (Max ((\<lambda>(g :: val, p). float64 p) ` set d) - Min ((\<lambda>(g :: val, p). float64 p) ` set d))"
  define D where "D = Max (snd ` set d) - Min (snd ` set d)"
  define T where "T = float64 (1 / 10)"
  have c: "\<bar>X - D\<bar> \<le> 3 / 2 ^ 53" unfolding X_def D_def by (rule float64_spread_close [OF assms])
  have t: "1 / 10 \<le> T" "T < 1 / 10 + 1 / 2 ^ 53" unfolding T_def by (rule threshold_bounds)+
  define u :: rat where "u = 1 / 2 ^ 53"
  have u: "0 < u" by (simp add: u_def)
  have e: "(1::rat) / 2 ^ 50 = 8 * u" "(3::rat) / 2 ^ 53 = 3 * u" "(1::rat) / 2 ^ 53 = u"
    by (simp_all add: u_def)
  have c': "X - D \<le> 3 * u" "D - X \<le> 3 * u" using c unfolding e by linarith+
  have t': "1 / 10 \<le> T" "T < 1 / 10 + u" using t unfolding e .
  have lo: "X \<le> T" if "D \<le> 1 / 10 - 1 / 2 ^ 50"
    using that c'(1) t'(1) u unfolding e by linarith
  have hi: "\<not> X \<le> T" if "1 / 10 + 1 / 2 ^ 50 \<le> D"
    using that c'(2) t'(2) u unfolding e by linarith
  from lo hi have "(D \<le> 1 / 10 - 1 / 2 ^ 50 \<longrightarrow> X \<le> T) \<and> (1 / 10 + 1 / 2 ^ 50 \<le> D \<longrightarrow> \<not> X \<le> T)"
    by blast
  then show ?thesis unfolding X_def D_def T_def .
qed

lemma proportions_unit:
  assumes "proportions df s t v = Inr d"
  shows "\<forall>(g, p) \<in> set d. 0 \<le> p \<and> p \<le> 1"
proof -
  from proportions_Inr_D [OF assms] have h: "t \<in> set (columns df)" "s \<in> set (columns df)"
    "\<forall>r \<in> set (rows df). \<not> is_list (r s)" by simp_all
  note k = proportions_keys [OF h assms]
  have "0 \<le> p \<and> p \<le> 1" if gp: "(g, p) \<in> set d" for g p
  proof -
    from gp have g: "g \<in> set (map fst d)" by force
    from k(2) gp have "map_of d g = Some p" by simp
    with k(3) [OF g] have "p = of_nat (length (filter (\<lambda>r. r s = g \<and> r t = Sc v) (rows df))) /
                                of_nat (length (filter (\<lambda>r. r s = g) (rows df)))" by simp
    then show ?thesis using ratio_bounds [of "\<lambda>r. r s = g" "\<lambda>r. r t = Sc v" "rows df"] by simp
  qed
  then show ?thesis by blast
qed

text \<open>
  Claim C2, as amended. Whenever the evaluator returns a non-empty dictionary, the
  disparity is a float64: the rounded difference of the largest and the smallest float
  of the dictionary (0 with a single group). The verdict is true exactly when that float
  is at most the double nearest to 0.1. It is the verdict of the exact comparison of
  the largest minus the smallest proportion with 0.1 whenever that exact difference is
  at least \<open>2 ^ - 50\<close> away from 0.1; nearer to 0.1 the two can differ.
\<close>

theorem verdict_compares_float64_spread:
  assumes "check = statistical_parity_check \<or> check = statistical_parity_check_compas"
    and "check df s t v = Inr (d, fair)" and "d \<noteq> []"
  shows "fair = (float64 (Max ((\<lambda>(g, p). float64 p) ` set d) - Min ((\<lambda>(g, p). float64 p) ` set d))
                   \<le> float64 (1 / 10)) \<and>
         ((\<exists>g p. d = [(g, p)]) \<longrightarrow>
            float64 (Max ((\<lambda>(g, p). float64 p) ` set d) - Min ((\<lambda>(g, p). float64 p) ` set d)) = 0
            \<and> fair) \<and>
         (Max (snd ` set d) - Min (snd ` set d) \<le> 1 / 10 - 1 / 2 ^ 50 \<longrightarrow> fair) \<and>
         (1 / 10 + 1 / 2 ^ 50 \<le> Max (snd ` set d) - Min (snd ` set d) \<longrightarrow> \<not> fair)"
proof -
  from check_Inr_D [OF assms(1,2)] have p: "proportions df s t v = Inr d" .
  from check_nonempty [OF assms(1) p assms(3)] assms(2)
  have f: "fair = (float64 (Max ((\<lambda>(g, p). float64 p) ` set d) - Min ((\<lambda>(g, p). float64 p) ` set d))
                   \<le> float64 (1 / 10))" by simp
  have one: "float64 (Max ((\<lambda>(g, p). float64 p) ` set d) - Min ((\<lambda>(g, p). float64 p) ` set d)) = 0 \<and> fair"
    if "d = [(g, p)]" for g p
    unfolding f that by (simp add: float64_tenth) (simp add: float64_def)
  from spread_verdict_tolerance [OF assms(3) proportions_unit [OF p]]
  have "(Max (snd ` set d) - Min (snd ` set d) \<le> 1 / 10 - 1 / 2 ^ 50 \<longrightarrow> fair) \<and>
        (1 / 10 + 1 / 2 ^ 50 \<le> Max (snd ` set d) - Min (snd ` set d) \<longrightarrow> \<not> fair)"
    unfolding f .
  with f one show ?thesis by blast
qed

theorem verdict_compares_float64_spread_witness:
  "statistical_parity_check example_frame ''group'' ''target'' (Num 1)
     = Inr ([(Sc (Str ''A''), 1 / 2), (Sc (Str ''B''), 0)], False) \<and>
   float64 (Max ((\<lambda>(g, p). float64 p) ` set [(Sc (Str ''A''), 1 / 2), (Sc (Str ''B''), 0)])
            - Min ((\<lambda>(g, p). float64 p) ` set [(Sc (Str ''A''), 1 / 2), (Sc (Str ''B''), 0)])) = 1 / 2"
proof -
  have c: "statistical_parity_check = statistical_parity_check \<or>
           statistical_parity_check = statistical_parity_check_compas" by simp
  have r: "statistical_parity_check example_frame ''group'' ''target'' (Num 1)
     = Inr ([(Sc (Str ''A''), 1 / 2), (Sc (Str ''B''), 0)], False)"
    by code_simp
  have ne: "[(Sc (Str ''A''), 1 / 2 :: rat), (Sc (Str ''B''), 0)] \<noteq> []" by simp
  have w: "float64 (Max ((\<lambda>(g, p). float64 p) ` set [(Sc (Str ''A''), 1 / 2), (Sc (Str ''B''), 0)])
            - Min ((\<lambda>(g, p). float64 p) ` set [(Sc (Str ''A''), 1 / 2), (Sc (Str ''B''), 0)])) = 1 / 2"
    by code_simp
  from verdict_compares_float64_spread [OF c r ne] r w show ?thesis by blast
qed

text \<open>
  Claim C2 as stated fails: group \<^verbatim>\<open>A\<close> has proportion 2/5 and group \<^verbatim>\<open>B\<close> 3/10, the
  largest minus the smallest is 1/10, which is at most 0.1, and the verdict is false
  (in float64, 0.4 - 0.3 is 0.10000000000000003).
\<close>

theorem exact_threshold_counterexample:
  "statistical_parity_check threshold_frame ''group'' ''target'' (Num 1)
     = Inr ([(Sc (Str ''A''), 2 / 5), (Sc (Str ''B''), 3 / 10)], False) \<and>
   (2 / 5 :: rat) - 3 / 10 \<le> 1 / 10"
  by code_simp

text \<open>
  Claim C9. Every proportion in a dictionary the evaluator returns lies between 0 and 1.
\<close>

theorem parity_proportions_in_unit_interval:
  assumes "check = statistical_parity_check \<or> check = statistical_parity_check_compas"
    and "check df s t v = Inr (d, fair)" and "(g, p) \<in> set d"
  shows "0 \<le> p \<and> p \<le> 1"
proof -
  from check_Inr_D [OF assms(1,2)] have pr: "proportions df s t v = Inr d" .
  from proportions_Inr_D [OF pr] have h: "t \<in> set (columns df)" "s \<in> set (columns df)"
    "\<forall>r \<in> set (rows df). \<not> is_list (r s)" by simp_all
  note k = proportions_keys [OF h pr]
  from assms(3) have g: "g \<in> set (map fst d)" by force
  from k(2) assms(3) have "map_of d g = Some p" by simp
  with k(3) [OF g] have "p = of_nat (length (filter (\<lambda>r. r s = g \<and> r t = Sc v) (rows df))) /
                              of_nat (length (filter (\<lambda>r. r s = g) (rows df)))" by simp
  then show ?thesis using ratio_bounds [of "\<lambda>r. r s = g" "\<lambda>r. r t = Sc v" "rows df"] by simp
qed

theorem parity_proportions_in_unit_interval_witness:
  "statistical_parity_check example_frame ''group'' ''target'' (Num 0)
     = Inr ([(Sc (Str ''A''), 1 / 2), (Sc (Str ''B''), 1)], False) \<and>
   (0::rat) \<le> 1 \<and> (1::rat) \<le> 1"
proof -
  have c: "statistical_parity_check = statistical_parity_check \<or>
           statistical_parity_check = statistical_parity_check_compas" by simp
  have r: "statistical_parity_check example_frame ''group'' ''target'' (Num 0)
     = Inr ([(Sc (Str ''A''), 1 / 2), (Sc (Str ''B''), 1)], False)"
    by code_simp
  have m: "(Sc (Str ''B''), 1) \<in> set [(Sc (Str ''A''), 1 / 2 :: rat), (Sc (Str ''B''), 1)]" by simp
  from parity_proportions_in_unit_interval [OF c r m] r show ?thesis by simp
qed

text \<open>
  Claim C10. The keys of the returned dictionary are exactly the distinct values of the
  sensitive column that are not missing, each once; the rows with a missing sensitive
  value count for nothing: removing them changes neither the dictionary nor the verdict.
\<close>

theorem parity_keys_are_non_null_values:
  assumes "check = statistical_parity_check \<or> check = statistical_parity_check_compas"
    and "s \<in> set (columns df)" and "t \<in> set (columns df)"
    and "\<forall>r \<in> set (rows df). \<not> is_list (r s)"
    and "\<exists>r \<in> set (rows df). r s \<noteq> Null"
  shows "\<exists>d fair. check df s t v = Inr (d, fair) \<and> distinct (map fst d) \<and>
           set (map fst d) = (\<lambda>r. r s) ` set (rows df) - {Null} \<and>
           check (df\<lparr>rows := filter (\<lambda>r. r s \<noteq> Null) (rows df)\<rparr>) s t v = Inr (d, fair)"
proof -
  from proportions_ok [OF assms(3,2,4)] obtain d where p: "proportions df s t v = Inr d"
    by blast
  note k = proportions_keys [OF assms(3,2,4) p]
  from assms(5) have "set (map fst d) \<noteq> {}" unfolding k(1) by blast
  then have ne: "d \<noteq> []" by auto
  from p have p': "proportions (df\<lparr>rows := filter (\<lambda>r. r s \<noteq> Null) (rows df)\<rparr>) s t v = Inr d"
    by (simp only: proportions_dropna [OF assms(3,2,4)])
  from check_nonempty [OF assms(1) p ne] check_nonempty [OF assms(1) p' ne] k(1,2)
  show ?thesis by blast
qed

theorem parity_keys_are_non_null_values_witness:
  "(\<exists>r \<in> set (rows example_frame). r ''group'' = Null) \<and>
   (\<exists>d fair. statistical_parity_check example_frame ''group'' ''target'' (Num 1) = Inr (d, fair) \<and>
      set (map fst d) = {Sc (Str ''A''), Sc (Str ''B'')})"
proof -
  have c: "statistical_parity_check = statistical_parity_check \<or>
           statistical_parity_check = statistical_parity_check_compas" by simp
  have s: "''group'' \<in> set (columns example_frame)"
    and t: "''target'' \<in> set (columns example_frame)"
    by (simp_all add: example_frame_def)
  have nl: "\<forall>r \<in> set (rows example_frame). \<not> is_list (r ''group'')"
    by (simp add: example_frame_def row3_def)
  have nn: "\<exists>r \<in> set (rows example_frame). r ''group'' \<noteq> Null"
    by (simp add: example_frame_def row3_def)
  have nu: "\<exists>r \<in> set (rows example_frame). r ''group'' = Null"
    by (simp add: example_frame_def row3_def)
  have v: "(\<lambda>r. r ''group'') ` set (rows example_frame) - {Null} = {Sc (Str ''A''), Sc (Str ''B'')}"
    by (auto simp: example_frame_def row3_def)
  from parity_keys_are_non_null_values [OF c s t nl nn, of "Num 1"] nu show ?thesis
    unfolding v by blast
qed

section \<open>No group at all\<close>

lemma proportions_no_groups:
  assumes "s \<in> set (columns df)" and "t \<in> set (columns df)"
    and "\<forall>r \<in> set (rows df). r s = Null"
  shows "proportions df s t v = Inr []"
proof -
  from assms(3) have nl: "\<forall>r \<in> set (rows df). \<not> is_list (r s)" by auto
  from proportions_ok [OF assms(2,1) nl] obtain d where d: "proportions df s t v = Inr d"
    by blast
  from assms(3) have "(\<lambda>r. r s) ` set (rows df) - {Null} = {}" by auto
  with proportions_keys(1) [OF assms(2,1) nl d] have "d = []" by simp
  with d show ?thesis by simp
qed

text \<open>
  Claim C3. A frame whose sensitive column holds no value at all (no row, or only
  missing values) has no group. \<^verbatim>\<open>faircompas.py\<close> then returns the empty dictionary
  with the verdict true, as the claim says. \<^verbatim>\<open>fair.py\<close> and \<^verbatim>\<open>fair2.py\<close> lack that
  guard: \<^verbatim>\<open>max\<close> of the empty dictionary raises \<^verbatim>\<open>ValueError\<close>.
\<close>

theorem no_group_data_raises_outside_faircompas:
  assumes "s \<in> set (columns df)" and "t \<in> set (columns df)"
    and "\<forall>r \<in> set (rows df). r s = Null"
  shows "statistical_parity_check df s t v = Inl ValueError \<and>
         statistical_parity_check_compas df s t v = Inr ([], True)"
  using proportions_no_groups [OF assms]
  by (simp add: statistical_parity_check_def statistical_parity_check_compas_def verdict_Nil)

theorem no_group_data_raises_outside_faircompas_witness:
  "statistical_parity_check no_group_frame ''group'' ''target'' (Num 1) = Inl ValueError \<and>
   statistical_parity_check_compas no_group_frame ''group'' ''target'' (Num 1) = Inr ([], True) \<and>
   statistical_parity_check \<lparr>columns = [''group'', ''target''], rows = []\<rparr> ''group'' ''target'' (Num 1)
     = Inl ValueError"
proof -
  have a: "''group'' \<in> set (columns no_group_frame)" "''target'' \<in> set (columns no_group_frame)"
    "\<forall>r \<in> set (rows no_group_frame). r ''group'' = Null"
    by (simp_all add: no_group_frame_def row3_def)
  have b: "''group'' \<in> set (columns \<lparr>columns = [''group'', ''target''], rows = []\<rparr>)"
    "''target'' \<in> set (columns \<lparr>columns = [''group'', ''target''], rows = []\<rparr>)"
    "\<forall>r \<in> set (rows \<lparr>columns = [''group'', ''target''], rows = []\<rparr>). r ''group'' = Null"
    by simp_all
  from no_group_data_raises_outside_faircompas [OF a, of "Num 1"]
    no_group_data_raises_outside_faircompas [OF b, of "Num 1"]
  show ?thesis by simp
qed

section \<open>Properties of the target normaliser\<close>

text \<open>
  Claim C4. The claim lets a cell that is not a list pass through unchanged. The code
  does so only while no cell of the column is a list. Once one is, the lambda is applied
  to every cell, and it maps whatever is not a non-empty list to \<^verbatim>\<open>None\<close>: a list
  becomes its first element or a missing value, as claimed, but every scalar of the
  column becomes a missing value too. The cells \<^verbatim>\<open>[1]\<close>, \<^verbatim>\<open>[]\<close>, \<^verbatim>\<open>1\<close> become
  \<^verbatim>\<open>1\<close>, \<^verbatim>\<open>None\<close>, \<^verbatim>\<open>None\<close>.
\<close>

theorem preprocess_nulls_scalars_beside_lists:
  assumes "t \<in> set (columns df)" and "r0 \<in> set (rows df)" and "is_list (r0 t)"
  shows "\<exists>df'. preprocess_target_column df t = Inr df' \<and>
           map (\<lambda>r. r t) (rows df') = map (\<lambda>r. first_or_none (r t)) (rows df) \<and>
           (\<forall>i < length (rows df). \<not> is_list ((rows df ! i) t) \<longrightarrow> (rows df' ! i) t = Null)"
proof -
  let ?df' = "df\<lparr>rows := map (\<lambda>r. r(t := first_or_none (r t))) (rows df)\<rparr>"
  from assms have p: "preprocess_target_column df t = Inr ?df'"
    by (auto simp: preprocess_target_column_def)
  have m: "map (\<lambda>r. r t) (rows ?df') = map (\<lambda>r. first_or_none (r t)) (rows df)"
    by (simp add: comp_def)
  have "(rows ?df' ! i) t = Null" if "i < length (rows df)" "\<not> is_list ((rows df ! i) t)" for i
    using that by (cases "(rows df ! i) t") simp_all
  with p m show ?thesis by blast
qed

theorem preprocess_nulls_scalars_beside_lists_witness:
  "map (\<lambda>r. r ''target'') (rows scenario_D) = [Lst [Sc (Num 1)], Lst [], Sc (Num 1)] \<and>
   (\<exists>df'. preprocess_target_column scenario_D ''target'' = Inr df' \<and>
      map (\<lambda>r. r ''target'') (rows df') = [Sc (Num 1), Null, Null])"
proof -
  have a: "''target'' \<in> set (columns scenario_D)"
    "row3 (Sc (Str ''A'')) (Lst []) Null \<in> set (rows scenario_D)"
    "is_list (row3 (Sc (Str ''A'')) (Lst []) Null ''target'')"
    by (simp_all add: scenario_D_def row3_def)
  have b: "map (\<lambda>r. r ''target'') (rows scenario_D) = [Lst [Sc (Num 1)], Lst [], Sc (Num 1)]"
    by (simp add: scenario_D_def row3_def)
  from preprocess_nulls_scalars_beside_lists [OF a] b show ?thesis by auto
qed

section \<open>Properties of the performance evaluator\<close>

lemma set_unique: "set (unique xs) = set xs"
  by (induction xs rule: unique.induct) auto

lemma performance_loop_zero:
  assumes "t \<in> set (columns df)" and "p \<in> set (columns df)"
    and "g \<in> set gs"
    and "filter (\<lambda>r. r t = Sc (Num 1)) (group_data df s g) = []"
  shows "performance_loop df s t p gs = Inl ZeroDivisionError"
  using assms(3)
proof (induction gs)
  case Nil
  then show ?case by simp
next
  case (Cons x xs)
  show ?case
  proof (cases "x = g")
    case True
    with assms show ?thesis by (simp add: py_truediv_def)
  next
    case False
    with Cons have "performance_loop df s t p xs = Inl ZeroDivisionError" by simp
    with assms(1,2) show ?thesis by (simp add: py_truediv_def split: sum.splits)
  qed
qed

text \<open>
  Claim C5, as amended. The rates are quotients of two Python ints, so a zero divisor
  raises: on a frame with the three columns, a group without any row of target 1 makes
  the evaluator fail with \<^verbatim>\<open>ZeroDivisionError\<close>. No sentinel is reported for that
  group, and no rate for any group.
\<close>

theorem no_positives_raises_zero_division:
  assumes "s \<in> set (columns df)" and "t \<in> set (columns df)" and "p \<in> set (columns df)"
    and "\<forall>r \<in> set (rows df). \<not> is_list (r s)"
    and "r0 \<in> set (rows df)"
    and "filter (\<lambda>r. r t = Sc (Num 1)) (group_data df s (r0 s)) = []"
  shows "evaluate_model_performance df s t p = Inl ZeroDivisionError"
proof -
  from assms(5) have "r0 s \<in> set (unique (map (\<lambda>r. r s) (rows df)))"
    by (simp add: set_unique)
  from performance_loop_zero [OF assms(2,3) this assms(6)] assms(1,4)
  show ?thesis by (simp add: evaluate_model_performance_def)
qed

theorem no_positives_raises_zero_division_witness:
  "filter (\<lambda>r. r ''target'' = Sc (Num 1)) (group_data example_frame ''group'' (Sc (Str ''B''))) = [] \<and>
   filter (\<lambda>r. r ''target'' = Sc (Num 0)) (group_data example_frame ''group'' (Sc (Str ''B''))) \<noteq> [] \<and>
   evaluate_model_performance example_frame ''group'' ''target'' ''pred'' = Inl ZeroDivisionError"
proof -
  let ?r0 = "row3 (Sc (Str ''B'')) (Sc (Num 0)) (Sc (Num 1))"
  have c: "''group'' \<in> set (columns example_frame)" "''target'' \<in> set (columns example_frame)"
    "''pred'' \<in> set (columns example_frame)"
    by (simp_all add: example_frame_def)
  have nl: "\<forall>r \<in> set (rows example_frame). \<not> is_list (r ''group'')"
    by (simp add: example_frame_def row3_def)
  have r0: "?r0 \<in> set (rows example_frame)" by (simp add: example_frame_def)
  have g: "?r0 ''group'' = Sc (Str ''B'')" by (simp add: row3_def)
  have z: "filter (\<lambda>r. r ''target'' = Sc (Num 1)) (group_data example_frame ''group'' (?r0 ''group'')) = []"
    by (simp add: group_data_def example_frame_def row3_def)
  have n: "filter (\<lambda>r. r ''target'' = Sc (Num 0)) (group_data example_frame ''group'' (Sc (Str ''B''))) \<noteq> []"
    by (simp add: group_data_def example_frame_def row3_def)
  from no_positives_raises_zero_division [OF c nl r0 z] z n show ?thesis
    unfolding g by simp
qed

text \<open>
  Claim C5 as stated fails: in the example frame group \<^verbatim>\<open>B\<close> has two rows of target 0
  and none of target 1, and the evaluator fails instead of reporting a sentinel.
\<close>

theorem no_positives_nan_counterexample:
  "evaluate_model_performance example_frame ''group'' ''target'' ''pred'' = Inl ZeroDivisionError"
  by (simp add: evaluate_model_performance_def example_frame_def row3_def group_data_def
      py_truediv_def)







section \<open>Properties of the orchestrator\<close>

text \<open>
  Claim C6, as amended. The orchestrator handles the listed columns in the order of the
  list, up to and including the first column that the frame has and on which the
  evaluator raises, if there is one. A handled column that the frame lacks gets the
  diagnostic for that column alone, and the loop goes on with the next column: a column
  the frame lacks never ends the run. A handled column that the frame has gets its
  header, dictionary and verdict. When the evaluator raises on a column the frame has,
  the run ends there with that exception, after the header of that column, and the
  columns listed after it, those the frame lacks included, get nothing.
\<close>

theorem analyze_fairness_runs_until_evaluator_raises:
  "analyze_fairness df cs t v =
     (concat (map (\<lambda>c. if c \<in> set (columns df)
                        then (case statistical_parity_check df c t v of
                                Inr (d, fair) \<Rightarrow> [Analysis_header c, Disparities d, Is_fair fair]
                              | Inl e \<Rightarrow> [Analysis_header c])
                        else [Column_not_found c])
        (takeWhile (\<lambda>c. \<not> (c \<in> set (columns df) \<and> isl (statistical_parity_check df c t v))) cs
         @ take 1 (dropWhile
                     (\<lambda>c. \<not> (c \<in> set (columns df) \<and> isl (statistical_parity_check df c t v))) cs))),
      case dropWhile (\<lambda>c. \<not> (c \<in> set (columns df) \<and> isl (statistical_parity_check df c t v))) cs of
        [] \<Rightarrow> None
      | c # rest \<Rightarrow> (case statistical_parity_check df c t v of Inl e \<Rightarrow> Some e | Inr x \<Rightarrow> None))"
proof (induction cs)
  case Nil
  show ?case by simp
next
  case (Cons c cs)
  show ?case
  proof (cases "c \<in> set (columns df)")
    case False
    with Cons show ?thesis by simp
  next
    case True
    show ?thesis
    proof (cases "statistical_parity_check df c t v")
      case (Inl e)
      with True show ?thesis by simp
    next
      case (Inr x)
      with True Cons show ?thesis by (cases x) simp
    qed
  qed
qed

theorem analyze_fairness_runs_until_evaluator_raises_witness:
  "analyze_fairness example_frame [''missing_col'', ''group''] ''target'' (Num 1) =
     ([Column_not_found ''missing_col'', Analysis_header ''group'',
       Disparities [(Sc (Str ''A''), 1 / 2), (Sc (Str ''B''), 0)], Is_fair False], None) \<and>
   analyze_fairness no_group_frame [''nope'', ''group'', ''missing_col''] ''target'' (Num 1) =
     ([Column_not_found ''nope'', Analysis_header ''group''], Some ValueError)"
proof -
  have r: "statistical_parity_check example_frame ''group'' ''target'' (Num 1)
     = Inr ([(Sc (Str ''A''), 1 / 2), (Sc (Str ''B''), 0)], False)"
    by code_simp
  have m: "''missing_col'' \<notin> set (columns example_frame)" "''group'' \<in> set (columns example_frame)"
    by (simp_all add: example_frame_def)
  have r': "statistical_parity_check no_group_frame ''group'' ''target'' (Num 1) = Inl ValueError"
    by code_simp
  have m': "''nope'' \<notin> set (columns no_group_frame)" "''group'' \<in> set (columns no_group_frame)"
    "''missing_col'' \<notin> set (columns no_group_frame)"
    by (simp_all add: no_group_frame_def)
  from analyze_fairness_runs_until_evaluator_raises
         [of example_frame "[''missing_col'', ''group'']" "''target''" "Num 1"] r m
  have 1: "analyze_fairness example_frame [''missing_col'', ''group''] ''target'' (Num 1) =
     ([Column_not_found ''missing_col'', Analysis_header ''group'',
       Disparities [(Sc (Str ''A''), 1 / 2), (Sc (Str ''B''), 0)], Is_fair False], None)"
    by simp
  from analyze_fairness_runs_until_evaluator_raises
         [of no_group_frame "[''nope'', ''group'', ''missing_col'']" "''target''" "Num 1"] r' m'
  have 2: "analyze_fairness no_group_frame [''nope'', ''group'', ''missing_col''] ''target'' (Num 1) =
     ([Column_not_found ''nope'', Analysis_header ''group''], Some ValueError)"
    by simp
  from 1 2 show ?thesis by simp
qed

text \<open>
  Claim C6 as stated fails: the column \<^verbatim>\<open>nope\<close> is in neither frame and gets no
  diagnostic, because the evaluator raised on the column listed before it: for want of
  a group in the first run, for want of the target column in the second.
\<close>

theorem absent_column_after_failure_counterexample:
  "analyze_fairness no_group_frame [''group'', ''nope''] ''target'' (Num 1) =
     ([Analysis_header ''group''], Some ValueError) \<and>
   analyze_fairness example_frame [''group'', ''nope''] ''no_target'' (Num 1) =
     ([Analysis_header ''group''], Some KeyError)"
  by code_simp

section \<open>Properties of the conditional evaluator\<close>



lemma mean_Nil: "mean [] = NaN"
  by (simp add: mean_def)





end
